theory Spec2Isabelle
  imports Main
begin

section \<open>Go values shared by the models\<close>

text \<open>
  A Go \<^verbatim>\<open>error\<close> is an interface value: \<^verbatim>\<open>nil\<close> is \<open>None\<close>, anything else is
  \<open>Some e\<close>. \<open>ErrorString\<close> stands for the values built by \<^verbatim>\<open>errors.New\<close> and
  \<^verbatim>\<open>fmt.Errorf\<close> (they are known by their message); \<open>ParseError\<close> is the struct
  of the codec, with its two fields.
\<close>

datatype go_error = ErrorString string | ParseError (Data: string) (Err: go_error)

fun Error :: "go_error \<Rightarrow> string" where
  "Error (ErrorString s) = s"
| "Error (ParseError d e) = ''error parsing data '' @ d @ '': '' @ Error e"

text \<open>
  A call that dereferences a nil pointer, calls a method of a nil interface or calls a
  nil function value panics; a panic is the left summand of every result below.
\<close>

datatype panic = NilPointerDereference | NilFunctionCall

section \<open>The read-only client (client_readonly.go)\<close>

subsection \<open>The delegate\<close>

text \<open>
  The wrapped \<^verbatim>\<open>client.Client\<close> belongs to controller-runtime. Its methods are taken
  as a parameter: one function that, given the method's name and its arguments,
  transforms the delegate's own state and returns the method's results (values and
  error together, of type \<open>'r\<close>). \<^verbatim>\<open>SubResource(name)\<close> of the delegate returns a
  \<^verbatim>\<open>client.SubResourceClient\<close>, again an interface, possibly nil.
\<close>

type_synonym ('a, 'r, 's) iface = "string \<Rightarrow> 'a \<Rightarrow> 's \<Rightarrow> 'r \<times> 's"

record ('a, 'r, 's) delegate =
  Methods :: "('a, 'r, 's) iface"
  SubResources :: "string \<Rightarrow> ('a, 'r, 's) iface option"

text \<open>
  The world a call runs in: the delegate's state, and the list of the delegate's
  methods invoked so far, in call order. Only \<open>invoke\<close> and the delegate's
  \<^verbatim>\<open>SubResource\<close> getter extend that list.
\<close>

record 's world =
  calls :: "string list"
  store :: 's

definition invoke ::
  "('a, 'r, 's) iface \<Rightarrow> string \<Rightarrow> 'a \<Rightarrow> 's world \<Rightarrow> (panic + 'r) \<times> 's world" where
  "invoke d m a w =
     (case d m a (store w) of
        (r, s') \<Rightarrow> (Inr r, \<lparr>calls = calls w @ [m], store = s'\<rparr>))"

subsection \<open>The decorator and its policy\<close>

text \<open>
  \<^verbatim>\<open>newError func(method string) error\<close> is a function value and may be nil
  (\<^verbatim>\<open>WithErrorBuilder(nil)\<close>); calling a nil function panics.
\<close>

type_synonym policy = "(string \<Rightarrow> go_error option) option"

record ('a, 'r, 's) readOnlyClient =
  Client :: "('a, 'r, 's) delegate option"
  newError :: policy

record ('a, 'r, 's) readOnlySubresourceClient =
  SubResourceClient :: "('a, 'r, 's) iface option"
  newError_sub :: policy

definition call_newError :: "policy \<Rightarrow> string \<Rightarrow> panic + go_error option" where
  "call_newError f method =
     (case f of None \<Rightarrow> Inl NilFunctionCall | Some g \<Rightarrow> Inr (g method))"

definition WithErrorBuilder ::
  "policy \<Rightarrow> ('a, 'r, 's) readOnlyClient \<Rightarrow> ('a, 'r, 's) readOnlyClient" where
  "WithErrorBuilder f c = c\<lparr>newError := f\<rparr>"

definition WithNoError :: "('a, 'r, 's) readOnlyClient \<Rightarrow> ('a, 'r, 's) readOnlyClient" where
  "WithNoError = WithErrorBuilder (Some (\<lambda>_. None))"

definition WithError :: "('a, 'r, 's) readOnlyClient \<Rightarrow> ('a, 'r, 's) readOnlyClient" where
  "WithError =
     WithErrorBuilder
       (Some (\<lambda>method. Some (ErrorString (method @ '' not allowed in read-only mode''))))"

text \<open>
  \<^verbatim>\<open>ReadOnlyClient\<close> allocates the struct, runs the mutators in order and returns the
  pointer, which is never nil (\<open>Some\<close>).
\<close>

definition ReadOnlyClient ::
  "('a, 'r, 's) delegate option
   \<Rightarrow> (('a, 'r, 's) readOnlyClient \<Rightarrow> ('a, 'r, 's) readOnlyClient) list
   \<Rightarrow> ('a, 'r, 's) readOnlyClient option" where
  "ReadOnlyClient client mutators =
     Some (foldl (\<lambda>c m. m c)
       \<lparr>Client = client,
        newError =
          Some (\<lambda>method. Some (ErrorString (method @ '' not allowed in read-only mode'')))\<rparr>
       mutators)"

subsection \<open>Methods of \<^verbatim>\<open>*readOnlyClient\<close>\<close>

text \<open>The five methods the struct defines itself. None of them touches the world.\<close>

definition readOnlyClient_Create ::
  "('a, 'r, 's) readOnlyClient option \<Rightarrow> 'a \<Rightarrow> 's world
   \<Rightarrow> (panic + go_error option) \<times> 's world" where
  "readOnlyClient_Create r args w =
     (case r of
        None \<Rightarrow> (Inr (Some (ErrorString ''client is nil'')), w)
      | Some c \<Rightarrow> (call_newError (newError c) ''Create'', w))"

definition readOnlyClient_Update ::
  "('a, 'r, 's) readOnlyClient option \<Rightarrow> 'a \<Rightarrow> 's world
   \<Rightarrow> (panic + go_error option) \<times> 's world" where
  "readOnlyClient_Update r args w =
     (case r of
        None \<Rightarrow> (Inr (Some (ErrorString ''client is nil'')), w)
      | Some c \<Rightarrow> (call_newError (newError c) ''Update'', w))"

definition readOnlyClient_Patch ::
  "('a, 'r, 's) readOnlyClient option \<Rightarrow> 'a \<Rightarrow> 's world
   \<Rightarrow> (panic + go_error option) \<times> 's world" where
  "readOnlyClient_Patch r args w =
     (case r of
        None \<Rightarrow> (Inr (Some (ErrorString ''client is nil'')), w)
      | Some c \<Rightarrow> (call_newError (newError c) ''Patch'', w))"

definition readOnlyClient_Delete ::
  "('a, 'r, 's) readOnlyClient option \<Rightarrow> 'a \<Rightarrow> 's world
   \<Rightarrow> (panic + go_error option) \<times> 's world" where
  "readOnlyClient_Delete r args w =
     (case r of
        None \<Rightarrow> (Inr (Some (ErrorString ''client is nil'')), w)
      | Some c \<Rightarrow> (call_newError (newError c) ''Delete'', w))"

definition readOnlyClient_DeleteAllOf ::
  "('a, 'r, 's) readOnlyClient option \<Rightarrow> 'a \<Rightarrow> 's world
   \<Rightarrow> (panic + go_error option) \<times> 's world" where
  "readOnlyClient_DeleteAllOf r args w =
     (case r of
        None \<Rightarrow> (Inr (Some (ErrorString ''client is nil'')), w)
      | Some c \<Rightarrow> (call_newError (newError c) ''DeleteAllOf'', w))"

text \<open>
  The struct embeds \<^verbatim>\<open>client.Client\<close>, so every method of the interface that the
  struct does not define is promoted: \<^verbatim>\<open>r.Get(...)\<close> is \<^verbatim>\<open>r.Client.Get(...)\<close>. Through a
  nil receiver or a nil embedded interface the call panics.
\<close>

definition promoted ::
  "string \<Rightarrow> ('a, 'r, 's) readOnlyClient option \<Rightarrow> 'a \<Rightarrow> 's world
   \<Rightarrow> (panic + 'r) \<times> 's world" where
  "promoted m r args w =
     (case r of
        None \<Rightarrow> (Inl NilPointerDereference, w)
      | Some c \<Rightarrow>
          (case Client c of
             None \<Rightarrow> (Inl NilPointerDereference, w)
           | Some d \<Rightarrow> invoke (Methods d) m args w))"

definition readOnlyClient_Get where "readOnlyClient_Get = promoted ''Get''"
definition readOnlyClient_List where "readOnlyClient_List = promoted ''List''"
definition readOnlyClient_RESTMapper where "readOnlyClient_RESTMapper = promoted ''RESTMapper''"
definition readOnlyClient_Scheme where "readOnlyClient_Scheme = promoted ''Scheme''"
definition readOnlyClient_GroupVersionKindFor where
  "readOnlyClient_GroupVersionKindFor = promoted ''GroupVersionKindFor''"
definition readOnlyClient_IsObjectNamespaced where
  "readOnlyClient_IsObjectNamespaced = promoted ''IsObjectNamespaced''"

text \<open>
  \<^verbatim>\<open>SubResource\<close>: the delegate's getter is called only behind the guard
  \<^verbatim>\<open>r != nil && r.Client != nil\<close>; the struct literal then reads \<^verbatim>\<open>r.newError\<close>, which
  panics on a nil receiver. The returned pointer is never nil.
\<close>

definition readOnlyClient_SubResource ::
  "('a, 'r, 's) readOnlyClient option \<Rightarrow> string \<Rightarrow> 's world
   \<Rightarrow> (panic + ('a, 'r, 's) readOnlySubresourceClient option) \<times> 's world" where
  "readOnlyClient_SubResource r resource w =
     (case r of
        None \<Rightarrow> (Inl NilPointerDereference, w)
      | Some c \<Rightarrow>
          (case Client c of
             None \<Rightarrow>
               (Inr (Some \<lparr>SubResourceClient = None, newError_sub = newError c\<rparr>), w)
           | Some d \<Rightarrow>
               (Inr (Some \<lparr>SubResourceClient = SubResources d resource,
                           newError_sub = newError c\<rparr>),
                w\<lparr>calls := calls w @ [''SubResource'']\<rparr>)))"

definition readOnlyClient_Status ::
  "('a, 'r, 's) readOnlyClient option \<Rightarrow> 's world
   \<Rightarrow> (panic + ('a, 'r, 's) readOnlySubresourceClient option) \<times> 's world" where
  "readOnlyClient_Status r w = readOnlyClient_SubResource r ''status'' w"

subsection \<open>Methods of \<^verbatim>\<open>*readOnlySubresourceClient\<close>\<close>

definition readOnlySubresourceClient_Update ::
  "('a, 'r, 's) readOnlySubresourceClient option \<Rightarrow> 'a \<Rightarrow> 's world
   \<Rightarrow> (panic + go_error option) \<times> 's world" where
  "readOnlySubresourceClient_Update r args w =
     (case r of
        None \<Rightarrow> (Inr (Some (ErrorString ''status client is nil'')), w)
      | Some h \<Rightarrow> (call_newError (newError_sub h) ''Update'', w))"

definition readOnlySubresourceClient_Create ::
  "('a, 'r, 's) readOnlySubresourceClient option \<Rightarrow> 'a \<Rightarrow> 's world
   \<Rightarrow> (panic + go_error option) \<times> 's world" where
  "readOnlySubresourceClient_Create r args w =
     (case r of
        None \<Rightarrow> (Inr (Some (ErrorString ''status client is nil'')), w)
      | Some h \<Rightarrow> (call_newError (newError_sub h) ''Update'', w))"

definition readOnlySubresourceClient_Patch ::
  "('a, 'r, 's) readOnlySubresourceClient option \<Rightarrow> 'a \<Rightarrow> 's world
   \<Rightarrow> (panic + go_error option) \<times> 's world" where
  "readOnlySubresourceClient_Patch r args w =
     (case r of
        None \<Rightarrow> (Inr (Some (ErrorString ''status client is nil'')), w)
      | Some h \<Rightarrow> (call_newError (newError_sub h) ''Update'', w))"


section \<open>The resource codec (ParseKubernetesObjects, SerialiseObjects)\<close>

subsection \<open>Go library functions on byte strings\<close>

text \<open>
  \<^verbatim>\<open>bytes.TrimLeft(s, cutset)\<close> slices off every leading byte that occurs in \<open>cutset\<close>:
  the cutset is a set of characters, not a prefix. \<^verbatim>\<open>strings.TrimPrefix(s, p)\<close>
  removes \<open>p\<close> once when \<open>s\<close> starts with it. \<^verbatim>\<open>bytes.Split\<close> is needed for the
  one-byte separator of the source only; it returns one more piece than there are
  separators.
\<close>

definition TrimLeft :: "string \<Rightarrow> string \<Rightarrow> string" where
  "TrimLeft s cutset = dropWhile (\<lambda>c. c \<in> set cutset) s"

definition HasPrefix :: "string \<Rightarrow> string \<Rightarrow> bool" where
  "HasPrefix s p = (take (length p) s = p)"

definition TrimPrefix :: "string \<Rightarrow> string \<Rightarrow> string" where
  "TrimPrefix s p = (if HasPrefix s p then drop (length p) s else s)"

fun Split :: "string \<Rightarrow> char \<Rightarrow> string list" where
  "Split [] sep = [[]]"
| "Split (c # cs) sep =
     (if c = sep then [] # Split cs sep
      else (case Split cs sep of [] \<Rightarrow> [[c]] | l # ls \<Rightarrow> (c # l) # ls))"

subsection \<open>commentOnly\<close>

fun commentOnly_loop :: "string list \<Rightarrow> bool" where
  "commentOnly_loop [] = True"
| "commentOnly_loop (b # bs) =
     (let line = TrimPrefix b '' '' in
      if line \<noteq> '''' \<and> \<not> HasPrefix line ''#'' then False else commentOnly_loop bs)"

definition commentOnly :: "string \<Rightarrow> bool" where
  "commentOnly d = commentOnly_loop (Split d (CHR ''\<newline>''))"

subsection \<open>ParseKubernetesObjects\<close>

text \<open>
  The stream is read through \<^verbatim>\<open>kubeyaml.NewYAMLReader\<close>, a library of apimachinery. The
  model takes what its successive \<^verbatim>\<open>Read()\<close> calls return: a chunk of bytes, or an
  error other than \<^verbatim>\<open>io.EOF\<close>; the end of the list is \<^verbatim>\<open>io.EOF\<close>. That reader splits
  at lines starting with \<^verbatim>\<open>---\<close>; a separator line met while its buffer is empty
  (at the start of the stream, or right after another separator) is kept as the first
  line of the chunk it returns next.
\<close>

datatype read = Chunk string | ReadError go_error

text \<open>
  The decoder is \<^verbatim>\<open>scheme.Codecs.UniversalDeserializer()\<close>, again a library. A call
  \<^verbatim>\<open>Decode(data, nil, into)\<close> returns an object or an error, and may write into the
  object \<open>into\<close> points to: \<open>Decode\<close> gives the returned value, \<open>Into\<close> the content of
  the target after the call. Objects are values here; the returned pointer may be
  the target itself or a new object.
\<close>

record 'o decoder =
  Decode :: "string \<Rightarrow> 'o option \<Rightarrow> go_error + 'o"
  Into :: "string \<Rightarrow> 'o \<Rightarrow> 'o"

text \<open>A deep copy is a new object with the same content.\<close>

definition DeepCopyObject :: "'o \<Rightarrow> 'o" where
  "DeepCopyObject obj = obj"

text \<open>
  The \<^verbatim>\<open>for\<close> loop, with its variables \<open>as\<close> and \<open>objects\<close>; the result also holds
  the final \<open>as\<close>. The assignment \<^verbatim>\<open>as = as.DeepCopyObject()\<close> rebinds the function's
  parameter, so the next iteration copies the object the previous one decoded into.
\<close>

fun parse_loop ::
  "'o decoder \<Rightarrow> read list \<Rightarrow> 'o option \<Rightarrow> 'o list
   \<Rightarrow> 'o option \<times> 'o list \<times> go_error option" where
  "parse_loop dec [] as objects = (as, objects, None)"
| "parse_loop dec (ReadError err # rs) as objects = (as, [], Some err)"
| "parse_loop dec (Chunk raw # rs) as objects =
     (let data = TrimLeft raw ''---'' in
      if \<not> commentOnly data then
        (let as1 = map_option DeepCopyObject as in
         case Decode dec data as1 of
           Inl err \<Rightarrow> (map_option (Into dec data) as1, [], Some (ParseError data err))
         | Inr obj \<Rightarrow> parse_loop dec rs (map_option (Into dec data) as1) (objects @ [obj]))
      else parse_loop dec rs as objects)"

definition ParseKubernetesObjects ::
  "'o decoder \<Rightarrow> read list \<Rightarrow> 'o option \<Rightarrow> 'o list \<times> go_error option" where
  "ParseKubernetesObjects dec r as =
     (case parse_loop dec r as [] of (_, objects, err) \<Rightarrow> (objects, err))"

subsection \<open>SerialiseObjects\<close>

text \<open>
  The encoder built from the scheme is a library too: \<open>encoder scheme obj\<close> gives the
  bytes \<^verbatim>\<open>Encode(o, w)\<close> writes to \<open>w\<close> and the error it returns. The writer is the
  list of the byte strings written to it, in order; the result of writing the
  delimiter is ignored, as in the source.
\<close>

fun serialise_loop ::
  "('o \<Rightarrow> string \<times> go_error option) \<Rightarrow> nat \<Rightarrow> 'o list \<Rightarrow> string list
   \<Rightarrow> go_error option \<times> string list" where
  "serialise_loop enc i [] w = (None, w)"
| "serialise_loop enc i (obj # objs) w =
     (let w1 = (if i > 0 then w @ [''---\<newline>''] else w) in
      case enc obj of
        (bytes, Some err) \<Rightarrow> (Some err, w1 @ [bytes])
      | (bytes, None) \<Rightarrow> serialise_loop enc (i + 1) objs (w1 @ [bytes]))"

definition SerialiseObjects ::
  "('sch \<Rightarrow> 'o \<Rightarrow> string \<times> go_error option) \<Rightarrow> 'sch \<Rightarrow> string list \<Rightarrow> 'o list
   \<Rightarrow> go_error option \<times> string list" where
  "SerialiseObjects encoder scheme w objects = serialise_loop (encoder scheme) 0 objects w"

section \<open>The kubeconfig path (KubeConfigPath)\<close>

text \<open>
  The process environment, the file system behind \<^verbatim>\<open>system.DefaultFileSystem\<close> and
  the two functions of \<^verbatim>\<open>path/filepath\<close> are parameters. \<open>Stat\<close> returns the error
  of the call, \<open>None\<close> when the file exists.
\<close>

record system =
  Getenv :: "string \<Rightarrow> string"
  Stat :: "string \<Rightarrow> go_error option"
  Join :: "string list \<Rightarrow> string"
  Clean :: "string \<Rightarrow> string"

definition KubeConfigPath :: "system \<Rightarrow> string \<Rightarrow> string" where
  "KubeConfigPath sys configPath =
     (let configPath =
        foldl (\<lambda>configPath dflt. if configPath = '''' then dflt else configPath)
          configPath
          [Getenv sys ''KUBECONFIG'', Join sys [Getenv sys ''HOME'', ''.kube'', ''config'']]
      in case Stat sys configPath of
           Some err \<Rightarrow> ''''
         | None \<Rightarrow> Clean sys configPath)"

section \<open>Decoders and encoders used at concrete inputs\<close>

text \<open>
  Two decoders to run the parser on. \<open>merging_decoder\<close> behaves as the JSON and YAML
  serializers do on a typed target: an object is the list of the entries it holds, and
  decoding adds the document's entry to what the target already holds (as
  \<^verbatim>\<open>json.Unmarshal\<close> into a struct that is not empty keeps the fields and map keys
  the document does not mention). \<open>strict_decoder\<close> ignores the target and accepts a
  document only when it starts with a \<^verbatim>\<open>kind\<close> line.
\<close>

definition merging_decoder :: "string list decoder" where
  "merging_decoder =
     \<lparr>Decode = (\<lambda>data into. Inr (case into of None \<Rightarrow> [data] | Some t \<Rightarrow> t @ [data])),
      Into = (\<lambda>data t. t @ [data])\<rparr>"


text \<open>An encoder that writes the object's text and fails on the object \<^verbatim>\<open>bad\<close>.\<close>

definition text_encoder :: "unit \<Rightarrow> string \<Rightarrow> string \<times> go_error option" where
  "text_encoder scheme obj =
     (obj, if obj = ''bad'' then Some (ErrorString ''no kind is registered'') else None)"

section \<open>The read-only client: theorems\<close>

text \<open>
  C1. On a client built by \<^verbatim>\<open>ReadOnlyClient\<close> with no mutator (the default policy),
  over any delegate, nil or not, each of Create, Update, Patch, Delete and DeleteAllOf
  returns the error whose message is the operation's name followed by
  \<^verbatim>\<open> not allowed in read-only mode\<close>, and leaves the world as it was: the delegate's
  state is unchanged and no method of the delegate has been invoked.
\<close>

theorem mutating_operations_denied_by_default:
  "readOnlyClient_Create (ReadOnlyClient client []) args w =
     (Inr (Some (ErrorString ''Create not allowed in read-only mode'')), w)
   \<and> readOnlyClient_Update (ReadOnlyClient client []) args w =
     (Inr (Some (ErrorString ''Update not allowed in read-only mode'')), w)
   \<and> readOnlyClient_Patch (ReadOnlyClient client []) args w =
     (Inr (Some (ErrorString ''Patch not allowed in read-only mode'')), w)
   \<and> readOnlyClient_Delete (ReadOnlyClient client []) args w =
     (Inr (Some (ErrorString ''Delete not allowed in read-only mode'')), w)
   \<and> readOnlyClient_DeleteAllOf (ReadOnlyClient client []) args w =
     (Inr (Some (ErrorString ''DeleteAllOf not allowed in read-only mode'')), w)"
  by (simp add: ReadOnlyClient_def readOnlyClient_Create_def readOnlyClient_Update_def
      readOnlyClient_Patch_def readOnlyClient_Delete_def readOnlyClient_DeleteAllOf_def
      call_newError_def)

text \<open>
  C2. The claim wants each write of a sub-resource handle denied under its own name.
  The code does so for Update only: on the handle \<^verbatim>\<open>Status()\<close> returns for a client
  with the default policy, \<^verbatim>\<open>Create\<close> and \<^verbatim>\<open>Patch\<close> both return the error
  \<^verbatim>\<open>Update not allowed in read-only mode\<close>, since all three methods pass the string
  \<^verbatim>\<open>"Update"\<close> to the policy.
\<close>

theorem subresource_Create_and_Patch_report_Update:
  "(case readOnlyClient_Status (ReadOnlyClient client []) w of
      (Inl p, w') \<Rightarrow> False
    | (Inr h, w') \<Rightarrow>
        readOnlySubresourceClient_Create h args w' =
          (Inr (Some (ErrorString ''Update not allowed in read-only mode'')), w')
        \<and> readOnlySubresourceClient_Patch h args w' =
          (Inr (Some (ErrorString ''Update not allowed in read-only mode'')), w')
        \<and> readOnlySubresourceClient_Update h args w' =
          (Inr (Some (ErrorString ''Update not allowed in read-only mode'')), w'))"
  by (simp add: ReadOnlyClient_def readOnlyClient_Status_def readOnlyClient_SubResource_def
      readOnlySubresourceClient_Create_def readOnlySubresourceClient_Patch_def
      readOnlySubresourceClient_Update_def call_newError_def split: option.split)

text \<open>
  C3. On a client whose delegate \<open>d\<close> is not nil, whatever its policy, each of Get,
  List, RESTMapper, Scheme, GroupVersionKindFor and IsObjectNamespaced returns exactly
  what the delegate's method of that name returns on the same arguments and state,
  leaves the delegate in the state that method leaves it in, and adds exactly one entry,
  the method's name, to the list of the delegate's invocations.
\<close>

theorem read_operations_forwarded_once:
  "readOnlyClient_Get (Some \<lparr>Client = Some d, newError = p\<rparr>) args w =
     (Inr (fst (Methods d ''Get'' args (store w))),
      \<lparr>calls = calls w @ [''Get''], store = snd (Methods d ''Get'' args (store w))\<rparr>)
   \<and> readOnlyClient_List (Some \<lparr>Client = Some d, newError = p\<rparr>) args w =
     (Inr (fst (Methods d ''List'' args (store w))),
      \<lparr>calls = calls w @ [''List''], store = snd (Methods d ''List'' args (store w))\<rparr>)
   \<and> readOnlyClient_RESTMapper (Some \<lparr>Client = Some d, newError = p\<rparr>) args w =
     (Inr (fst (Methods d ''RESTMapper'' args (store w))),
      \<lparr>calls = calls w @ [''RESTMapper''],
       store = snd (Methods d ''RESTMapper'' args (store w))\<rparr>)
   \<and> readOnlyClient_Scheme (Some \<lparr>Client = Some d, newError = p\<rparr>) args w =
     (Inr (fst (Methods d ''Scheme'' args (store w))),
      \<lparr>calls = calls w @ [''Scheme''], store = snd (Methods d ''Scheme'' args (store w))\<rparr>)
   \<and> readOnlyClient_GroupVersionKindFor (Some \<lparr>Client = Some d, newError = p\<rparr>) args w =
     (Inr (fst (Methods d ''GroupVersionKindFor'' args (store w))),
      \<lparr>calls = calls w @ [''GroupVersionKindFor''],
       store = snd (Methods d ''GroupVersionKindFor'' args (store w))\<rparr>)
   \<and> readOnlyClient_IsObjectNamespaced (Some \<lparr>Client = Some d, newError = p\<rparr>) args w =
     (Inr (fst (Methods d ''IsObjectNamespaced'' args (store w))),
      \<lparr>calls = calls w @ [''IsObjectNamespaced''],
       store = snd (Methods d ''IsObjectNamespaced'' args (store w))\<rparr>)"
  by (simp add: readOnlyClient_Get_def readOnlyClient_List_def readOnlyClient_RESTMapper_def
      readOnlyClient_Scheme_def readOnlyClient_GroupVersionKindFor_def
      readOnlyClient_IsObjectNamespaced_def promoted_def invoke_def split: prod.split)


section \<open>The resource codec: theorems\<close>

lemma copy_keeps_content: "map_option DeepCopyObject as = as"
  by (cases as) (simp_all add: DeepCopyObject_def)

lemma TrimLeft_removes_dashes_only:
  "\<exists>n. raw = replicate n (CHR ''-'') @ TrimLeft raw ''---''"
proof (induction raw)
  case Nil
  show ?case by (simp add: TrimLeft_def)
next
  case (Cons c cs)
  show ?case
  proof (cases "c = CHR ''-''")
    case True
    from Cons obtain n where "cs = replicate n (CHR ''-'') @ TrimLeft cs ''---''" ..
    with True have "c # cs = replicate (Suc n) (CHR ''-'') @ TrimLeft (c # cs) ''---''"
      by (simp add: TrimLeft_def)
    then show ?thesis ..
  next
    case False
    then have "c # cs = replicate 0 (CHR ''-'') @ TrimLeft (c # cs) ''---''"
      by (simp add: TrimLeft_def)
    then show ?thesis ..
  qed
qed

text \<open>
  A prefix of the stream on which the loop neither fails nor meets a read error only
  moves the loop's variables.
\<close>

lemma parse_loop_append:
  "parse_loop dec pre as objs = (as', objs', None) \<Longrightarrow>
   parse_loop dec (pre @ post) as objs = parse_loop dec post as' objs'"
proof (induction dec pre as objs rule: parse_loop.induct)
  case (1 dec as objects)
  then show ?case by simp
next
  case (2 dec err rs as objects)
  then show ?case by simp
next
  case (3 dec raw rs as objects)
  then show ?case
    by (auto simp: Let_def split: if_splits sum.splits)
qed

text \<open>
  C4. The claim counts as a comment every line whose content after any leading white
  space starts with \<^verbatim>\<open>#\<close>. \<open>commentOnly\<close> removes one leading space only: the
  one-line stream made of two spaces and a comment is not comment-only for the code, so
  it is handed to the decoder, and whatever the decoder answers the result is not the
  empty list without error (an object is returned, or a \<open>ParseError\<close>).
\<close>

theorem indented_comment_is_decoded:
  "\<not> commentOnly ''  # some comment\<newline>''
   \<and> ParseKubernetesObjects dec [Chunk ''  # some comment\<newline>''] as \<noteq> ([], None)
   \<and> ParseKubernetesObjects dec [Chunk ''  # some comment\<newline>''] as =
       (case Decode dec ''  # some comment\<newline>'' as of
          Inl err \<Rightarrow> ([], Some (ParseError ''  # some comment\<newline>'' err))
        | Inr obj \<Rightarrow> ([obj], None))"
  by (simp add: ParseKubernetesObjects_def TrimLeft_def commentOnly_def TrimPrefix_def
      HasPrefix_def Let_def copy_keeps_content split: sum.split)

text \<open>
  What the loop does at a chunk that fails to decode, after a prefix it has gone
  through without returning: it returns at once, whatever follows in the stream, with
  an empty object list (also when the prefix had produced objects) and a \<open>ParseError\<close>
  holding the decoder's error and the bytes handed to the decoder. Those bytes are the
  chunk without its leading \<^verbatim>\<open>-\<close> bytes.
\<close>

lemma decode_failure_stops_the_loop:
  assumes "parse_loop dec pre as [] = (as', objects, None)"
    and "\<not> commentOnly (TrimLeft raw ''---'')"
    and "Decode dec (TrimLeft raw ''---'') as' = Inl cause"
  shows "ParseKubernetesObjects dec (pre @ Chunk raw # post) as =
           ([], Some (ParseError (TrimLeft raw ''---'') cause))
         \<and> (\<exists>n. raw = replicate n (CHR ''-'') @ TrimLeft raw ''---'')"
  using assms TrimLeft_removes_dashes_only [of raw]
  by (simp add: ParseKubernetesObjects_def parse_loop_append Let_def copy_keeps_content)


text \<open>
  C6. The claim wants only the delimiter stripped and the payload decoded unchanged.
  \<^verbatim>\<open>bytes.TrimLeft(data, "---")\<close> strips every leading \<^verbatim>\<open>-\<close>: the chunk of a stream
  with no delimiter whose document is a YAML list loses the dash of its first item
  before it reaches the decoder (and the error, when the decoder fails).
\<close>

theorem TrimLeft_strips_payload_dash:
  "TrimLeft ''- a\<newline>- b\<newline>'' ''---'' = '' a\<newline>- b\<newline>''
   \<and> ParseKubernetesObjects dec [Chunk ''- a\<newline>- b\<newline>''] as =
       (case Decode dec '' a\<newline>- b\<newline>'' as of
          Inl err \<Rightarrow> ([], Some (ParseError '' a\<newline>- b\<newline>'' err))
        | Inr obj \<Rightarrow> ([obj], None))"
  by (simp add: ParseKubernetesObjects_def TrimLeft_def commentOnly_def TrimPrefix_def
      HasPrefix_def Let_def copy_keeps_content split: sum.split)

text \<open>
  C7. The claim wants every document decoded into a copy of the original prototype.
  The loop copies its variable \<open>as\<close> and assigns the copy to it, so the second document
  is decoded into a copy of the object the first one was decoded into. With a decoder
  that keeps what the target holds, the second object of a two-document stream holds
  the first document's entry too, while the same chunk parsed alone gives an object with
  its own entry only.
\<close>

theorem second_document_decoded_into_first_object:
  "ParseKubernetesObjects merging_decoder [Chunk ''a: 1'', Chunk ''b: 2''] (Some []) =
     ([[''a: 1''], [''a: 1'', ''b: 2'']], None)
   \<and> ParseKubernetesObjects merging_decoder [Chunk ''b: 2''] (Some []) = ([[''b: 2'']], None)"
  by (simp add: ParseKubernetesObjects_def merging_decoder_def TrimLeft_def commentOnly_def
      TrimPrefix_def HasPrefix_def Let_def DeepCopyObject_def)

text \<open>
  After the first object every document is preceded by one delimiter, as long as the
  encoder succeeds; the first failure ends the loop.
\<close>

lemma serialise_loop_later:
  "0 < i \<Longrightarrow> list_all (\<lambda>obj. snd (enc obj) = None) objs \<Longrightarrow>
   serialise_loop enc i objs w =
     (None, w @ concat (map (\<lambda>obj. [''---\<newline>'', fst (enc obj)]) objs))"
  by (induction objs arbitrary: i w) (auto split: prod.splits option.splits)

lemma serialise_loop_later_fail:
  "0 < i \<Longrightarrow> list_all (\<lambda>obj. snd (enc obj) = None) pre \<Longrightarrow> snd (enc bad) = Some err \<Longrightarrow>
   serialise_loop enc i (pre @ bad # post) w =
     (Some err, w @ concat (map (\<lambda>obj. [''---\<newline>'', fst (enc obj)]) (pre @ [bad])))"
  by (induction pre arbitrary: i w) (auto split: prod.splits option.splits)

text \<open>
  C8. When every object encodes, \<^verbatim>\<open>SerialiseObjects\<close> returns nil and has written, after
  what the writer held, the first object's document and then, for each further object
  in input order, the delimiter followed by that object's document: as many documents as
  objects and one delimiter fewer. When the objects of \<open>pre\<close> encode and \<open>bad\<close> does not,
  it returns the error of \<open>bad\<close>, having written the same for \<open>pre\<close> and \<open>bad\<close> (for
  \<open>bad\<close>, the bytes its encoder wrote before failing) and nothing for the objects after.
\<close>

theorem SerialiseObjects_delimiters_and_abort:
  "(list_all (\<lambda>obj. snd (encoder scheme obj) = None) objects \<longrightarrow>
      SerialiseObjects encoder scheme w objects =
        (None,
         w @ (case objects of
                [] \<Rightarrow> []
              | first # rest \<Rightarrow>
                  fst (encoder scheme first)
                  # concat (map (\<lambda>obj. [''---\<newline>'', fst (encoder scheme obj)]) rest)))
      \<and> length (snd (SerialiseObjects encoder scheme w objects)) =
          length w + length objects + (length objects - 1))
   \<and> (list_all (\<lambda>obj. snd (encoder scheme obj) = None) pre
        \<and> snd (encoder scheme bad) = Some err \<longrightarrow>
      SerialiseObjects encoder scheme w (pre @ bad # post) =
        (Some err,
         w @ (case pre @ [bad] of
                [] \<Rightarrow> []
              | first # rest \<Rightarrow>
                  fst (encoder scheme first)
                  # concat (map (\<lambda>obj. [''---\<newline>'', fst (encoder scheme obj)]) rest))))"
proof (intro conjI impI)
  assume ok: "list_all (\<lambda>obj. snd (encoder scheme obj) = None) objects"
  show written: "SerialiseObjects encoder scheme w objects =
        (None,
         w @ (case objects of
                [] \<Rightarrow> []
              | first # rest \<Rightarrow>
                  fst (encoder scheme first)
                  # concat (map (\<lambda>obj. [''---\<newline>'', fst (encoder scheme obj)]) rest)))"
  proof (cases objects)
    case Nil
    then show ?thesis by (simp add: SerialiseObjects_def)
  next
    case (Cons first rest)
    with ok show ?thesis
      by (auto simp: SerialiseObjects_def serialise_loop_later split: prod.splits option.splits)
  qed
  show "length (snd (SerialiseObjects encoder scheme w objects)) =
          length w + length objects + (length objects - 1)"
    unfolding written
    by (cases objects) (simp_all add: length_concat comp_def sum_list_triv)
next
  assume h: "list_all (\<lambda>obj. snd (encoder scheme obj) = None) pre
        \<and> snd (encoder scheme bad) = Some err"
  show "SerialiseObjects encoder scheme w (pre @ bad # post) =
        (Some err,
         w @ (case pre @ [bad] of
                [] \<Rightarrow> []
              | first # rest \<Rightarrow>
                  fst (encoder scheme first)
                  # concat (map (\<lambda>obj. [''---\<newline>'', fst (encoder scheme obj)]) rest)))"
  proof (cases pre)
    case Nil
    with h show ?thesis
      by (auto simp: SerialiseObjects_def split: prod.splits option.splits)
  next
    case (Cons first rest)
    with h show ?thesis
      by (auto simp: SerialiseObjects_def serialise_loop_later_fail
          split: prod.splits option.splits)
  qed
qed

theorem SerialiseObjects_delimiters_and_abort_witness:
  "SerialiseObjects text_encoder () [] [''ns'', ''cm'', ''secret''] =
     (None, [''ns'', ''---\<newline>'', ''cm'', ''---\<newline>'', ''secret''])
   \<and> SerialiseObjects text_encoder () [] [''ns'', ''bad'', ''secret''] =
     (Some (ErrorString ''no kind is registered''), [''ns'', ''---\<newline>'', ''bad''])"
  using SerialiseObjects_delimiters_and_abort
    [of text_encoder "()" "[''ns'', ''cm'', ''secret'']" "[]" "[''ns'']" "''bad''"
      "ErrorString ''no kind is registered''" "[''secret'']"]
  by (simp add: text_encoder_def)

section \<open>The kubeconfig path: theorems\<close>

text \<open>
  C9. The claim wants a candidate that does not exist skipped in favour of the next one
  that does. The loop of \<^verbatim>\<open>KubeConfigPath\<close> replaces the path only while it is empty,
  and the file system is asked once, about the first candidate that is not empty: with
  an explicit path that does not exist and \<^verbatim>\<open>KUBECONFIG\<close> naming a file that does, the
  result is the empty string.
\<close>

theorem KubeConfigPath_missing_explicit_path_is_not_skipped:
  "KubeConfigPath
     \<lparr>Getenv = (\<lambda>v. if v = ''KUBECONFIG'' then ''/etc/kube/config'' else ''''),
      Stat = (\<lambda>p. if p = ''/etc/kube/config'' then None
                   else Some (ErrorString ''file does not exist'')),
      Join = join, Clean = clean\<rparr>
     ''/missing/config'' = ''''"
  by (simp add: KubeConfigPath_def)

end
